theory Spec2Isabelle
  imports Complex_Main
begin

section \<open>Production-file generation for a board: rotation, layer plan, placement\<close>

text \<open>
  This theory embeds the class \<open>Fabrication\<close> of \<open>fabrication.py\<close>: the rotation
  correction of footprints (\<open>fix_rotation\<close>, \<open>rotate\<close>), the reference point of a
  footprint (\<open>get_position\<close>), the plot plan of \<open>generate_geber\<close> and the placement
  export \<open>generate_cpl\<close>.

  Conventions of the embedding:
  \<^item> angles are Python floats; \<open>fix_rotation\<close> models them as exact reals, and
    \<open>fix_rotation_float\<close> is the same function with the rounding of each float
    operation written out;
  \<^item> board coordinates are the integers of the board engine's internal unit;
  \<^item> what the board engine (\<open>pcbnew\<close>) and the regular-expression module (\<open>re\<close>)
    supply is a parameter of the functions that use it;
  \<^item> an exception is a value of type \<open>error\<close>;
  \<^item> calls of the logger are not modelled: no result depends on them.
\<close>

subsection \<open>Errors\<close>

datatype error =
    ConfigurationError  \<comment> \<open>a correction table with a malformed pattern is refused\<close>
  | ReError             \<comment> \<open>\<open>re.error\<close>: \<open>re.search\<close> was given a malformed pattern\<close>

subsection \<open>The regular-expression module\<close>

text \<open>
  \<open>re.search(pattern, string)\<close> first compiles \<open>pattern\<close> and raises \<open>re.error\<close> when
  that fails, whatever the string is; otherwise it answers whether the pattern matches
  somewhere in the string. The engine is a parameter: \<open>re_compiles\<close> says which
  patterns compile, \<open>re_matches\<close> is the search for those that do.
\<close>

record regex_engine =
  re_compiles :: "string \<Rightarrow> bool"
  re_matches :: "string \<Rightarrow> string \<Rightarrow> bool"

definition re_search :: "regex_engine \<Rightarrow> string \<Rightarrow> string \<Rightarrow> error + bool" where
  "re_search re pattern s =
     (if re_compiles re pattern then Inr (re_matches re pattern s) else Inl ReError)"

subsection \<open>Footprints\<close>

text \<open>
  \<open>GetOrientation\<close> returns an angle object with a method \<open>AsDegrees\<close> in recent
  engines and a plain number of tenths of a degree in older ones.
\<close>

datatype orientation =
    EDA_ANGLE real   \<comment> \<open>has \<open>AsDegrees\<close>, which returns the argument\<close>
  | Tenths real      \<comment> \<open>a plain number: \<open>AsDegrees\<close> raises AttributeError\<close>

text \<open>
  The read-only view of a footprint: one field for each getter that \<open>fabrication.py\<close>
  calls. \<open>get_smd\<close> and \<open>get_exclude_from_pos\<close> are the helpers of the same names;
  \<open>GetBoundingBoxCenter\<close> is \<open>GetBoundingBox(False, False).GetCenter()\<close>.
\<close>

record footprint =
  GetReference :: string
  GetValue :: string
  GetLibItemName :: string
  GetOrientation :: orientation
  GetLayer :: int
  GetPosition :: "int \<times> int"
  GetBoundingBoxCenter :: "int \<times> int"
  get_smd :: bool
  get_exclude_from_pos :: bool

subsection \<open>Rotation\<close>

text \<open>Python's \<open>a % b\<close> on floats, for \<open>b > 0\<close>: the result has the sign of \<open>b\<close>.\<close>

definition py_mod :: "real \<Rightarrow> real \<Rightarrow> real" where
  "py_mod a b = a - b * of_int \<lfloor>a / b\<rfloor>"

text \<open>A correction rule is a pair of a pattern and an offset in degrees.\<close>

type_synonym correction_rule = "string \<times> int"

text \<open>The method \<open>rotate\<close>; the name \<open>rotate\<close> is taken by a list function.\<close>

definition rotate_fp :: "footprint \<Rightarrow> real \<Rightarrow> int \<Rightarrow> real" where
  "rotate_fp footprint rotation correction =
     (if GetLayer footprint = 0 then py_mod (rotation + of_int correction) 360
      else py_mod (rotation - of_int correction) 360)"

text \<open>
  One \<open>for regex, correction in self.corrections\<close> loop of \<open>fix_rotation\<close>: the offset
  of the first rule whose pattern is found in \<open>s\<close>, \<open>None\<close> when the loop runs to its
  end, and the error of \<open>re.search\<close> when a pattern reached by the loop is malformed.
\<close>

fun scan :: "regex_engine \<Rightarrow> correction_rule list \<Rightarrow> string \<Rightarrow> error + int option" where
  "scan re [] s = Inr None"
| "scan re ((regex, correction) # rest) s =
     (case re_search re regex s of
        Inl e \<Rightarrow> Inl e
      | Inr found \<Rightarrow> if found then Inr (Some correction) else scan re rest s)"

text \<open>
  The first steps of \<open>fix_rotation\<close>: the orientation in degrees, by \<open>AsDegrees\<close> or,
  when that raises AttributeError, by a division by 10 (\<open>degrees\<close>); then the mirroring
  \<open>(180 - rotation) % 360\<close> of a footprint that is not on layer 0 (\<open>mirrored\<close>). The
  two loops and the final \<open>return rotation\<close> follow in \<open>fix_rotation\<close>.
\<close>

definition degrees :: "orientation \<Rightarrow> real" where
  "degrees original = (case original of EDA_ANGLE d \<Rightarrow> d | Tenths t \<Rightarrow> t / 10)"

definition mirrored :: "footprint \<Rightarrow> real" where
  "mirrored footprint =
     (let rotation = degrees (GetOrientation footprint)
      in if GetLayer footprint \<noteq> 0 then py_mod (180 - rotation) 360 else rotation)"

definition fix_rotation :: "regex_engine \<Rightarrow> correction_rule list \<Rightarrow> footprint \<Rightarrow> error + real" where
  "fix_rotation re corrections footprint =
     (let rotation = mirrored footprint
      in case scan re corrections (GetValue footprint) of
           Inl e \<Rightarrow> Inl e
         | Inr (Some correction) \<Rightarrow> Inr (rotate_fp footprint rotation correction)
         | Inr None \<Rightarrow>
             (case scan re corrections (GetLibItemName footprint) of
                Inl e \<Rightarrow> Inl e
              | Inr (Some correction) \<Rightarrow> Inr (rotate_fp footprint rotation correction)
              | Inr None \<Rightarrow> Inr rotation))"

subsection \<open>Rotation in floating point\<close>

text \<open>
  A Python float is an IEEE 754 double: 53 significant bits, and every operation rounds
  its exact result to the nearest double, a tie to the one with an even significand.
  \<open>ulp x\<close> is the distance between the doubles of the binade of \<open>x\<close>. Overflow and
  subnormal numbers lie far from any angle and are not modelled.
\<close>

definition ulp :: "real \<Rightarrow> real" where
  "ulp x = 2 powi (\<lfloor>log 2 \<bar>x\<bar>\<rfloor> - 52)"

definition round_half_even :: "real \<Rightarrow> int" where
  "round_half_even y =
     (let f = \<lfloor>y\<rfloor>; d = y - of_int f
      in if d < 1 / 2 then f else if 1 / 2 < d then f + 1 else if even f then f else f + 1)"

definition round_double :: "real \<Rightarrow> real" where
  "round_double x = (if x = 0 then 0 else ulp x * of_int (round_half_even (x / ulp x)))"

text \<open>
  The float \<open>vx % wx\<close> of CPython (\<open>float_rem\<close>): the C function \<open>fmod\<close>, whose result has
  the sign of \<open>vx\<close> and is exact, followed by \<open>mod += wx\<close>, a rounded addition, when the
  signs of \<open>mod\<close> and \<open>wx\<close> differ. The sign of a zero result is not modelled.
\<close>

definition fmod :: "real \<Rightarrow> real \<Rightarrow> real" where
  "fmod x y = x - y * of_int (if 0 \<le> x / y then \<lfloor>x / y\<rfloor> else \<lceil>x / y\<rceil>)"

definition float_rem :: "real \<Rightarrow> real \<Rightarrow> real" where
  "float_rem vx wx =
     (let m = fmod vx wx
      in if m \<noteq> 0 then (if (wx < 0) \<noteq> (m < 0) then round_double (m + wx) else m) else 0)"

text \<open>
  \<open>fix_rotation\<close> and \<open>rotate\<close> once more, on doubles: \<open>original / 10\<close>,
  \<open>180 - rotation\<close>, \<open>rotation + int(correction)\<close> and \<open>rotation - int(correction)\<close> round,
  and \<open>%\<close> is \<open>float_rem\<close>. The orientation is a double; an offset is an integer small
  enough to be a double itself.
\<close>

definition degrees_float :: "orientation \<Rightarrow> real" where
  "degrees_float original =
     (case original of EDA_ANGLE d \<Rightarrow> d | Tenths t \<Rightarrow> round_double (t / 10))"

definition mirrored_float :: "footprint \<Rightarrow> real" where
  "mirrored_float footprint =
     (let rotation = degrees_float (GetOrientation footprint)
      in if GetLayer footprint \<noteq> 0 then float_rem (round_double (180 - rotation)) 360
         else rotation)"

definition rotate_float :: "footprint \<Rightarrow> real \<Rightarrow> int \<Rightarrow> real" where
  "rotate_float footprint rotation correction =
     (if GetLayer footprint = 0
      then float_rem (round_double (rotation + of_int correction)) 360
      else float_rem (round_double (rotation - of_int correction)) 360)"

definition fix_rotation_float ::
  "regex_engine \<Rightarrow> correction_rule list \<Rightarrow> footprint \<Rightarrow> error + real" where
  "fix_rotation_float re corrections footprint =
     (let rotation = mirrored_float footprint
      in case scan re corrections (GetValue footprint) of
           Inl e \<Rightarrow> Inl e
         | Inr (Some correction) \<Rightarrow> Inr (rotate_float footprint rotation correction)
         | Inr None \<Rightarrow>
             (case scan re corrections (GetLibItemName footprint) of
                Inl e \<Rightarrow> Inl e
              | Inr (Some correction) \<Rightarrow> Inr (rotate_float footprint rotation correction)
              | Inr None \<Rightarrow> Inr rotation))"

subsection \<open>The layer plot plan\<close>

text \<open>
  The layer identifiers are constants of the board engine. \<open>fabrication.py\<close> imports
  them by name and relies on two facts about their values only: \<open>GetLayer() != 0\<close>
  tests for the bottom side, and the identifier of the inner layer \<open>k\<close> is \<open>k\<close>.
\<close>

record layer_ids =
  F_Cu :: int
  B_Cu :: int
  F_SilkS :: int
  B_SilkS :: int
  F_Mask :: int
  B_Mask :: int
  F_Paste :: int
  B_Paste :: int
  Edge_Cuts :: int
  Cmts_User :: int

text \<open>The decimal digits of a number, as an f-string prints an \<open>int\<close>.\<close>

fun str_nat :: "nat \<Rightarrow> string" where
  "str_nat n =
     (if n < 10 then [''0123456789'' ! n]
      else str_nat (n div 10) @ [''0123456789'' ! (n mod 10)])"

declare str_nat.simps [simp del]

definition str_int :: "int \<Rightarrow> string" where
  "str_int i = (if i < 0 then CHR ''-'' # str_nat (nat (- i)) else str_nat (nat i))"

type_synonym layer_info = "string \<times> int \<times> string"

definition plot_plan_top :: "layer_ids \<Rightarrow> layer_info list" where
  "plot_plan_top L =
     [(''CuTop'', F_Cu L, ''Top layer''),
      (''SilkTop'', F_SilkS L, ''Silk top''),
      (''MaskTop'', F_Mask L, ''Mask top''),
      (''PasteTop'', F_Paste L, ''Paste top'')]"

definition plot_plan_bottom :: "layer_ids \<Rightarrow> layer_info list" where
  "plot_plan_bottom L =
     [(''CuBottom'', B_Cu L, ''Bottom layer''),
      (''SilkBottom'', B_SilkS L, ''Silk top''),
      (''MaskBottom'', B_Mask L, ''Mask bottom''),
      (''PasteBottom'', B_Paste L, ''Paste bottom''),
      (''EdgeCuts'', Edge_Cuts L, ''Edges''),
      (''VScore'', Cmts_User L, ''V score cut'')]"

text \<open>
  \<open>plot_plan_bottom[-2:]\<close> is the list of the last two entries; \<open>range(1, layer_count - 1)\<close>
  is \<open>[1..layer_count - 2]\<close>, empty when \<open>layer_count \<le> 2\<close>.
\<close>

definition plot_plan :: "layer_ids \<Rightarrow> int \<Rightarrow> layer_info list" where
  "plot_plan L layer_count =
     (if layer_count = 1 then
        plot_plan_top L @ drop (length (plot_plan_bottom L) - 2) (plot_plan_bottom L)
      else if layer_count = 2 then
        plot_plan_top L @ plot_plan_bottom L
      else
        plot_plan_top L
        @ map (\<lambda>layer. (''CuIn'' @ str_int layer, layer, ''Inner layer '' @ str_int layer))
            [1..layer_count - 2]
        @ plot_plan_bottom L)"

text \<open>
  The calls that the loop over the plan makes on the plot controller and its options,
  in order. \<open>PlotLayer\<close> answering \<open>False\<close> is logged and the loop goes on.
\<close>

datatype plot_call =
    SetSkipPlotNPTH_Pads bool
  | SetLayer int
  | OpenPlotfile string string
  | PlotLayer
  | ClosePlot

fun plot_layers :: "layer_ids \<Rightarrow> layer_info list \<Rightarrow> plot_call list" where
  "plot_layers L [] = []"
| "plot_layers L (layer_info # rest) =
     [SetSkipPlotNPTH_Pads (fst (snd layer_info) \<le> B_Cu L),
      SetLayer (fst (snd layer_info)),
      OpenPlotfile (fst layer_info) (snd (snd layer_info)),
      PlotLayer]
     @ plot_layers L rest"

text \<open>
  \<open>generate_geber(layer_count=None)\<close>: \<open>not layer_count\<close> holds for \<open>None\<close> and for
  \<open>0\<close>, and then the count comes from the board (\<open>board_count\<close>). The plot options
  set before the loop and the clearing of the output directory are not modelled.
\<close>

definition generate_geber :: "layer_ids \<Rightarrow> int \<Rightarrow> int option \<Rightarrow> plot_call list" where
  "generate_geber L board_count layer_count =
     (let layer_count =
            (case layer_count of
               None \<Rightarrow> board_count
             | Some c \<Rightarrow> if c = 0 then board_count else c)
      in plot_layers L (plot_plan L layer_count) @ [ClosePlot])"

text \<open>The flag values of a run, in the order in which they were set.\<close>

fun skip_flags :: "plot_call list \<Rightarrow> bool list" where
  "skip_flags [] = []"
| "skip_flags (SetSkipPlotNPTH_Pads b # calls) = b # skip_flags calls"
| "skip_flags (c # calls) = skip_flags calls"

text \<open>
  The numbering of the board engine in its releases 6 to 8: the copper layers are
  \<open>0\<close> (front), \<open>1\<close> to \<open>30\<close> (inner) and \<open>31\<close> (back); every other layer has a
  greater identifier.
\<close>

definition pcbnew_layers :: layer_ids where
  "pcbnew_layers =
     \<lparr>F_Cu = 0, B_Cu = 31, F_SilkS = 37, B_SilkS = 36, F_Mask = 39, B_Mask = 38,
      F_Paste = 35, B_Paste = 34, Edge_Cuts = 44, Cmts_User = 41\<rparr>"

subsection \<open>The placement file\<close>

definition get_position :: "footprint \<Rightarrow> int \<times> int" where
  "get_position footprint =
     (if get_smd footprint then GetPosition footprint else GetBoundingBoxCenter footprint)"

text \<open>
  A row of \<open>store.read_pos_parts()\<close>: the columns that the export reads, \<open>part[0]\<close>,
  \<open>part[1]\<close>, \<open>part[2]\<close> and \<open>part[4]\<close>. The supplier part id may be absent or empty;
  both are false as a Python condition.
\<close>

record pos_part =
  part_reference :: string
  part_value :: string
  part_footprint :: string
  part_lcsc :: "string option"

definition truthy :: "string option \<Rightarrow> bool" where
  "truthy v = (case v of None \<Rightarrow> False | Some s \<Rightarrow> s \<noteq> [])"

datatype cell = Str string | Num real

type_synonym csv_row = "cell list"

definition cpl_header :: csv_row where
  "cpl_header =
     [Str ''Designator'', Str ''Val'', Str ''Package'', Str ''Mid X'', Str ''Mid Y'',
      Str ''Rotation'', Str ''Layer'']"

text \<open>
  The row that \<open>generate_cpl\<close> hands to \<open>writer.writerow\<close> for a part and one of its
  footprints. \<open>ToMM\<close> is the board engine's conversion of a length to millimetres.
  When \<open>fix_rotation\<close> raises, no row is written.
\<close>

definition cpl_row ::
  "regex_engine \<Rightarrow> (int \<Rightarrow> real) \<Rightarrow> correction_rule list \<Rightarrow> int \<times> int \<Rightarrow> pos_part \<Rightarrow> footprint
   \<Rightarrow> error + csv_row" where
  "cpl_row re ToMM corrections aux_orgin part fp =
     (let position = (fst (get_position fp) - fst aux_orgin,
                      snd (get_position fp) - snd aux_orgin)
      in case fix_rotation re corrections fp of
           Inl e \<Rightarrow> Inl e
         | Inr rotation \<Rightarrow>
             Inr [Str (part_reference part), Str (part_value part), Str (part_footprint part),
                  Num (ToMM (fst position)), Num (ToMM (snd position) * - 1),
                  Num rotation,
                  Str (if GetLayer fp = 0 then ''top'' else ''bottom'')])"

record board =
  GetFootprints :: "footprint list"
  GetAuxOrigin :: "int \<times> int"
  GetCopperLayerCount :: int

text \<open>
  Modelled from the spec: the helper \<open>get_footprint_by_ref\<close> is not part of
  \<open>fabrication.py\<close>. It locates the footprints of the board that carry a reference
  designator: zero or more matches, in the order of the board.
\<close>

definition get_footprint_by_ref :: "board \<Rightarrow> string \<Rightarrow> footprint list" where
  "get_footprint_by_ref b ref = filter (\<lambda>fp. GetReference fp = ref) (GetFootprints b)"

text \<open>
  The inner loop \<open>for fp in get_footprint_by_ref(...)\<close>, on the rows written so far.
  An exception leaves the loop with the rows written before it.
\<close>

fun write_footprints ::
  "regex_engine \<Rightarrow> (int \<Rightarrow> real) \<Rightarrow> correction_rule list \<Rightarrow> int \<times> int \<Rightarrow> bool \<Rightarrow> pos_part
   \<Rightarrow> footprint list \<Rightarrow> csv_row list \<Rightarrow> error option \<times> csv_row list" where
  "write_footprints re ToMM corrections aux_orgin add_without_lcsc part [] rows = (None, rows)"
| "write_footprints re ToMM corrections aux_orgin add_without_lcsc part (fp # fps) rows =
     (if get_exclude_from_pos fp then
        write_footprints re ToMM corrections aux_orgin add_without_lcsc part fps rows
      else if \<not> add_without_lcsc \<and> \<not> truthy (part_lcsc part) then
        write_footprints re ToMM corrections aux_orgin add_without_lcsc part fps rows
      else
        (case cpl_row re ToMM corrections aux_orgin part fp of
           Inl e \<Rightarrow> (Some e, rows)
         | Inr row \<Rightarrow>
             write_footprints re ToMM corrections aux_orgin add_without_lcsc part fps
               (rows @ [row])))"

text \<open>The outer loop \<open>for part in self.parent.store.read_pos_parts()\<close>.\<close>

fun write_parts ::
  "regex_engine \<Rightarrow> (int \<Rightarrow> real) \<Rightarrow> correction_rule list \<Rightarrow> int \<times> int \<Rightarrow> bool \<Rightarrow> board
   \<Rightarrow> pos_part list \<Rightarrow> csv_row list \<Rightarrow> error option \<times> csv_row list" where
  "write_parts re ToMM corrections aux_orgin add_without_lcsc b [] rows = (None, rows)"
| "write_parts re ToMM corrections aux_orgin add_without_lcsc b (part # parts) rows =
     (case write_footprints re ToMM corrections aux_orgin add_without_lcsc part
             (get_footprint_by_ref b (part_reference part)) rows of
        (Some e, rows') \<Rightarrow> (Some e, rows')
      | (None, rows') \<Rightarrow> write_parts re ToMM corrections aux_orgin add_without_lcsc b parts rows')"

text \<open>
  The settings are a dictionary of dictionaries;
  \<open>settings.get("gerber", {}).get(key, dflt)\<close> reads one of them.
\<close>

type_synonym settings = "string \<rightharpoonup> (string \<rightharpoonup> bool)"

definition gerber_setting :: "settings \<Rightarrow> string \<Rightarrow> bool \<Rightarrow> bool" where
  "gerber_setting s key dflt =
     (case s ''gerber'' of
        None \<Rightarrow> dflt
      | Some g \<Rightarrow> (case g key of None \<Rightarrow> dflt | Some v \<Rightarrow> v))"

text \<open>
  Modelled from the spec: the method \<open>get_all_correction_data\<close> of the library is not
  part of \<open>fabrication.py\<close>. It loads the ordered sequence of correction rules from its
  source and requires that each pattern compiles as a regular expression; a malformed
  pattern fails the whole load with a \<open>ConfigurationError\<close>.
\<close>

definition get_all_correction_data ::
  "regex_engine \<Rightarrow> correction_rule list \<Rightarrow> error + correction_rule list" where
  "get_all_correction_data re source =
     (if list_all (\<lambda>rule. re_compiles re (fst rule)) source then Inr source
      else Inl ConfigurationError)"

text \<open>
  The files of the production directory, by name; a CSV file is the list of its rows.
  \<open>self.filename.split('.')[0]\<close> is the file name of the board up to its first dot.
\<close>

type_synonym files = "string \<rightharpoonup> csv_row list"

definition cplname :: "string \<Rightarrow> string" where
  "cplname filename = ''CPL-'' @ takeWhile (\<lambda>c. c \<noteq> CHR ''.'') filename @ ''.csv''"

text \<open>
  \<open>generate_cpl\<close>. The argument \<open>library\<close> is the outcome of the call
  \<open>self.parent.library.get_all_correction_data()\<close>, which comes before the file is
  opened. Opening the file for writing creates or empties it; leaving the \<open>with\<close>
  block, also by an exception, closes it with the rows written so far.
\<close>

definition generate_cpl ::
  "regex_engine \<Rightarrow> (int \<Rightarrow> real) \<Rightarrow> string \<Rightarrow> error + correction_rule list \<Rightarrow> settings \<Rightarrow> board
   \<Rightarrow> pos_part list \<Rightarrow> files \<Rightarrow> error option \<times> files" where
  "generate_cpl re ToMM filename library s b pos_parts fs =
     (case library of
        Inl e \<Rightarrow> (Some e, fs)
      | Inr corrections \<Rightarrow>
          (let aux_orgin = GetAuxOrigin b;
               add_without_lcsc = gerber_setting s ''lcsc_bom_pos'' True;
               (err, rows) = write_parts re ToMM corrections aux_orgin add_without_lcsc b
                               pos_parts [cpl_header]
           in (err, fs(cplname filename \<mapsto> rows))))"

subsection \<open>A regular-expression engine for examples\<close>

text \<open>
  A pattern without metacharacters is found by \<open>re.search\<close> exactly where it occurs as
  a substring, and the pattern that is a single opening parenthesis does not compile.
  The examples below use such patterns only, with this engine.
\<close>

fun startswith :: "string \<Rightarrow> string \<Rightarrow> bool" where
  "startswith s [] = True"
| "startswith [] (p # ps) = False"
| "startswith (c # cs) (p # ps) = (c = p \<and> startswith cs ps)"

fun literal_search :: "string \<Rightarrow> string \<Rightarrow> bool" where
  "literal_search p [] = (p = [])"
| "literal_search p (c # cs) = (startswith (c # cs) p \<or> literal_search p cs)"

definition literal_engine :: regex_engine where
  "literal_engine = \<lparr>re_compiles = (\<lambda>p. p \<noteq> ''(''), re_matches = literal_search\<rparr>"

text \<open>The conversion of nanometres to millimetres.\<close>

definition nm_to_mm :: "int \<Rightarrow> real" where
  "nm_to_mm n = real_of_int n / 1000000"

subsection \<open>The numbering of the copper layers\<close>

text \<open>
  What the test \<open>layer_info[1] <= B_Cu\<close> relies on: the copper layers are numbered
  up to \<open>B_Cu\<close>, every other layer of the plan above it.
\<close>

definition copper_numbering :: "layer_ids \<Rightarrow> bool" where
  "copper_numbering L \<longleftrightarrow>
     F_Cu L \<le> B_Cu L \<and> B_Cu L < F_SilkS L \<and> B_Cu L < F_Mask L \<and> B_Cu L < F_Paste L \<and>
     B_Cu L < B_SilkS L \<and> B_Cu L < B_Mask L \<and> B_Cu L < B_Paste L \<and>
     B_Cu L < Edge_Cuts L \<and> B_Cu L < Cmts_User L"

subsection \<open>Example data\<close>

definition fp_top :: footprint where
  "fp_top = \<lparr>GetReference = ''U1'', GetValue = ''LM358'', GetLibItemName = ''SOIC-8'',
     GetOrientation = EDA_ANGLE 0, GetLayer = 0, GetPosition = (15000000, 20000000),
     GetBoundingBoxCenter = (15500000, 20000000), get_smd = True,
     get_exclude_from_pos = False\<rparr>"

definition fp_bottom :: footprint where
  "fp_bottom = \<lparr>GetReference = ''Q1'', GetValue = ''BC847'', GetLibItemName = ''SOT-23'',
     GetOrientation = EDA_ANGLE 45, GetLayer = 31, GetPosition = (100000000, 50000000),
     GetBoundingBoxCenter = (100000000, 50200000), get_smd = True,
     get_exclude_from_pos = False\<rparr>"

definition fp_negative :: footprint where
  "fp_negative = \<lparr>GetReference = ''R1'', GetValue = ''10k'', GetLibItemName = ''R_0603'',
     GetOrientation = EDA_ANGLE (- 90), GetLayer = 0, GetPosition = (1000000, 2000000),
     GetBoundingBoxCenter = (1000000, 2000000), get_smd = True,
     get_exclude_from_pos = False\<rparr>"

definition part_example :: pos_part where
  "part_example = \<lparr>part_reference = ''Q1'', part_value = ''BC847'',
     part_footprint = ''SOT-23'', part_lcsc = Some ''C8574''\<rparr>"

definition board_example :: board where
  "board_example = \<lparr>GetFootprints = [fp_top, fp_bottom, fp_negative],
     GetAuxOrigin = (10000000, 10000000), GetCopperLayerCount = 2\<rparr>"

definition fp_excluded :: footprint where
  "fp_excluded = \<lparr>GetReference = ''Q1'', GetValue = ''BC847'', GetLibItemName = ''SOT-23'',
     GetOrientation = EDA_ANGLE 90, GetLayer = 0, GetPosition = (30000000, 30000000),
     GetBoundingBoxCenter = (30000000, 30000000), get_smd = True,
     get_exclude_from_pos = True\<rparr>"

definition board_mixed :: board where
  "board_mixed = \<lparr>GetFootprints = [fp_top, fp_bottom, fp_excluded, fp_negative],
     GetAuxOrigin = (10000000, 10000000), GetCopperLayerCount = 2\<rparr>"

definition parts_mixed :: "pos_part list" where
  "parts_mixed =
     [\<lparr>part_reference = ''Q1'', part_value = ''BC847'', part_footprint = ''SOT-23'',
        part_lcsc = Some ''C8574''\<rparr>,
      \<lparr>part_reference = ''R1'', part_value = ''10k'', part_footprint = ''R_0603'',
        part_lcsc = None\<rparr>,
      \<lparr>part_reference = ''U1'', part_value = ''LM358'', part_footprint = ''SOIC-8'',
        part_lcsc = Some ''''\<rparr>]"

definition settings_off :: settings where
  "settings_off = [''gerber'' \<mapsto> [''lcsc_bom_pos'' \<mapsto> False]]"

text \<open>
  Two doubles next to 180 and to 90: \<open>180.00000000000003\<close> is \<open>180 + 1 / 2 ^ 45\<close> and
  \<open>89.99999999999999\<close> is \<open>90 - 1 / 2 ^ 46\<close>.
\<close>

definition fp_edge_bottom :: footprint where
  "fp_edge_bottom = \<lparr>GetReference = ''D1'', GetValue = ''LED'', GetLibItemName = ''LED_0603'',
     GetOrientation = EDA_ANGLE (180 + 1 / 2 ^ 45), GetLayer = 31,
     GetPosition = (0, 0), GetBoundingBoxCenter = (0, 0), get_smd = True,
     get_exclude_from_pos = False\<rparr>"

definition fp_edge_top :: footprint where
  "fp_edge_top = \<lparr>GetReference = ''R2'', GetValue = ''10k'', GetLibItemName = ''R_0603'',
     GetOrientation = EDA_ANGLE (90 - 1 / 2 ^ 46), GetLayer = 0,
     GetPosition = (0, 0), GetBoundingBoxCenter = (0, 0), get_smd = True,
     get_exclude_from_pos = False\<rparr>"

lemmas example_defs = fp_top_def fp_bottom_def fp_negative_def part_example_def literal_engine_def

section \<open>Properties\<close>

subsection \<open>The modulus\<close>

lemma py_mod_range: "0 \<le> py_mod a 360 \<and> py_mod a 360 < 360"
proof -
  have "of_int \<lfloor>a / 360\<rfloor> \<le> a / 360" by (rule of_int_floor_le)
  moreover have "a / 360 < of_int \<lfloor>a / 360\<rfloor> + 1" by linarith
  ultimately show ?thesis unfolding py_mod_def by (simp add: field_simps)
qed

lemma py_mod_unique:
  assumes "0 \<le> r" and "r < 360" and "a = r + 360 * of_int k"
  shows "py_mod a 360 = r"
proof -
  have "a / 360 = r / 360 + of_int k" using assms(3) by simp
  moreover have "\<lfloor>r / 360 + of_int k\<rfloor> = k" using assms(1,2) by (simp add: floor_eq_iff)
  ultimately have "\<lfloor>a / 360\<rfloor> = k" by (simp only:)
  then show ?thesis using assms(3) by (simp add: py_mod_def)
qed

lemma py_mod_id: "0 \<le> a \<Longrightarrow> a < 360 \<Longrightarrow> py_mod a 360 = a"
  using py_mod_unique [of a a 0] by simp

subsection \<open>Rotation\<close>

lemma rotate_range: "0 \<le> rotate_fp fp r d \<and> rotate_fp fp r d < 360"
  by (simp add: rotate_fp_def py_mod_range)

lemma mirrored_range:
  assumes "0 \<le> degrees (GetOrientation fp)" and "degrees (GetOrientation fp) < 360"
  shows "0 \<le> mirrored fp \<and> mirrored fp < 360"
  using assms by (simp add: mirrored_def Let_def py_mod_range)

text \<open>With patterns that all compile, a scan is the search for the first matching rule.\<close>

lemma scan_find:
  assumes "\<forall>rule\<in>set corrections. re_compiles re (fst rule)"
  shows "scan re corrections s =
           Inr (map_option snd (find (\<lambda>rule. re_matches re (fst rule) s) corrections))"
  using assms
proof (induction corrections)
  case Nil
  show ?case by simp
next
  case (Cons rule rest)
  obtain regex correction where rule: "rule = (regex, correction)" by (cases rule)
  from Cons.prems have "re_compiles re regex" by (simp add: rule)
  moreover from Cons have "scan re rest s =
      Inr (map_option snd (find (\<lambda>rule. re_matches re (fst rule) s) rest))" by simp
  ultimately show ?case by (simp add: rule re_search_def)
qed

lemma scan_malformed_first:
  "\<not> re_compiles re regex \<Longrightarrow> scan re ((regex, correction) # rest) s = Inl ReError"
  by (simp add: re_search_def)

lemma fix_rotation_find:
  assumes "\<forall>rule\<in>set corrections. re_compiles re (fst rule)"
  shows "fix_rotation re corrections fp =
     (case find (\<lambda>rule. re_matches re (fst rule) (GetValue fp)) corrections of
        Some rule \<Rightarrow> Inr (rotate_fp fp (mirrored fp) (snd rule))
      | None \<Rightarrow>
          (case find (\<lambda>rule. re_matches re (fst rule) (GetLibItemName fp)) corrections of
             Some rule \<Rightarrow> Inr (rotate_fp fp (mirrored fp) (snd rule))
           | None \<Rightarrow> Inr (mirrored fp)))"
  by (simp add: fix_rotation_def Let_def scan_find [OF assms] split: option.splits)

lemma fix_rotation_returns:
  assumes "\<forall>rule\<in>set corrections. re_compiles re (fst rule)"
  shows "\<exists>v. fix_rotation re corrections fp = Inr v"
  by (simp add: fix_rotation_find [OF assms] split: option.splits)

lemma fix_rotation_cases:
  assumes "fix_rotation re corrections fp = Inr v"
  shows "v = mirrored fp \<or> (\<exists>d. v = rotate_fp fp (mirrored fp) d)"
  using assms by (auto simp: fix_rotation_def Let_def split: sum.splits option.splits)

lemma rotate_top_then_bottom:
  assumes "GetLayer ftop = 0" and "GetLayer fbot \<noteq> 0"
  shows "rotate_fp fbot (rotate_fp ftop r d) d = py_mod r 360"
proof -
  have "py_mod (py_mod (r + of_int d) 360 - of_int d) 360 = py_mod r 360"
  proof (rule py_mod_unique)
    show "0 \<le> py_mod r 360" "py_mod r 360 < 360" using py_mod_range by simp_all
    show "py_mod (r + of_int d) 360 - of_int d =
            py_mod r 360 + 360 * of_int (\<lfloor>r / 360\<rfloor> - \<lfloor>(r + of_int d) / 360\<rfloor>)"
      by (simp add: py_mod_def algebra_simps)
  qed
  then show ?thesis using assms by (simp add: rotate_fp_def)
qed

text \<open>
  C3. The rule lookup of \<open>fix_rotation\<close> scans the rules in declaration order against
  the value of the footprint first and applies the first rule whose pattern matches;
  the package name is scanned, again in declaration order with the first match winning,
  only if no rule matched the value; at most one offset is applied. (\<open>find\<close> returns
  the first element of a list that satisfies a predicate.)
\<close>

theorem rule_lookup_order:
  assumes "\<forall>rule\<in>set corrections. re_compiles re (fst rule)"
  shows "fix_rotation re corrections fp =
     (case find (\<lambda>rule. re_matches re (fst rule) (GetValue fp)) corrections of
        Some rule \<Rightarrow> Inr (rotate_fp fp (mirrored fp) (snd rule))
      | None \<Rightarrow>
          (case find (\<lambda>rule. re_matches re (fst rule) (GetLibItemName fp)) corrections of
             Some rule \<Rightarrow> Inr (rotate_fp fp (mirrored fp) (snd rule))
           | None \<Rightarrow> Inr (mirrored fp)))"
  using assms by (rule fix_rotation_find)

theorem rule_lookup_order_witness:
  "list_all (\<lambda>rule. re_compiles literal_engine (fst rule))
     [(''SOIC'', 90::int), (''LM358'', 180), (''LM'', 270)] \<and>
   fix_rotation literal_engine [(''SOIC'', 90::int), (''LM358'', 180), (''LM'', 270)] fp_top = Inr 180"
proof -
  have h: "\<forall>rule\<in>set [(''SOIC'', 90::int), (''LM358'', 180), (''LM'', 270)].
             re_compiles literal_engine (fst rule)"
    by (simp add: literal_engine_def)
  show ?thesis
    using h rule_lookup_order [OF h, of fp_top]
    by (simp add: example_defs rotate_fp_def mirrored_def degrees_def py_mod_def)
qed

text \<open>
  C4. A part on the bottom layer with raw rotation 45 degrees whose package name, and
  not its value, matches a correction rule with offset 180: the rotation is reflected to
  \<open>(180 - 45) mod 360 = 135\<close>, the bottom-side correction gives 315, and 315 is the
  rotation of the placement row.
\<close>

theorem bottom_45_package_180:
  assumes "GetLayer fp \<noteq> 0"
    and "degrees (GetOrientation fp) = 45"
    and "\<forall>rule\<in>set corrections. re_compiles re (fst rule)"
    and "\<forall>rule\<in>set corrections. \<not> re_matches re (fst rule) (GetValue fp)"
    and "find (\<lambda>rule. re_matches re (fst rule) (GetLibItemName fp)) corrections
           = Some (regex, 180)"
  shows "mirrored fp = 135 \<and> rotate_fp fp 135 180 = 315 \<and>
         fix_rotation re corrections fp = Inr 315 \<and>
         (\<exists>row. cpl_row re ToMM corrections aux_orgin part fp = Inr row \<and> row ! 5 = Num 315)"
proof -
  have m: "mirrored fp = 135"
    using assms(1,2) by (simp add: mirrored_def py_mod_def)
  have "py_mod (135 - 180) 360 = 315"
    by (rule py_mod_unique [where k = "- 1"]) simp_all
  then have r: "rotate_fp fp 135 180 = 315"
    using assms(1) by (simp add: rotate_fp_def)
  have "find (\<lambda>rule. re_matches re (fst rule) (GetValue fp)) corrections = None"
    using assms(4) by (auto simp: find_None_iff)
  then have f: "fix_rotation re corrections fp = Inr 315"
    using assms(5) m r by (simp add: fix_rotation_find [OF assms(3)])
  then have "\<exists>row. cpl_row re ToMM corrections aux_orgin part fp = Inr row \<and> row ! 5 = Num 315"
    by (simp add: cpl_row_def Let_def)
  with m r f show ?thesis by simp
qed

theorem bottom_45_package_180_witness:
  "GetLayer fp_bottom \<noteq> 0 \<and> degrees (GetOrientation fp_bottom) = 45 \<and>
   list_all (\<lambda>rule. re_compiles literal_engine (fst rule)) [(''SOT-23'', 180::int)] \<and>
   list_all (\<lambda>rule. \<not> re_matches literal_engine (fst rule) (GetValue fp_bottom))
     [(''SOT-23'', 180::int)] \<and>
   find (\<lambda>rule. re_matches literal_engine (fst rule) (GetLibItemName fp_bottom))
     [(''SOT-23'', 180::int)] = Some (''SOT-23'', 180::int) \<and>
   fix_rotation literal_engine [(''SOT-23'', 180::int)] fp_bottom = Inr 315"
proof -
  have h1: "GetLayer fp_bottom \<noteq> 0" by (simp add: fp_bottom_def)
  have h2: "degrees (GetOrientation fp_bottom) = 45" by (simp add: fp_bottom_def degrees_def)
  have h3: "\<forall>rule\<in>set [(''SOT-23'', 180::int)]. re_compiles literal_engine (fst rule)"
    by (simp add: literal_engine_def)
  have h4: "\<forall>rule\<in>set [(''SOT-23'', 180::int)].
              \<not> re_matches literal_engine (fst rule) (GetValue fp_bottom)"
    by (simp add: literal_engine_def fp_bottom_def)
  have h5: "find (\<lambda>rule. re_matches literal_engine (fst rule) (GetLibItemName fp_bottom))
              [(''SOT-23'', 180::int)] = Some (''SOT-23'', 180::int)"
    by (simp add: literal_engine_def fp_bottom_def)
  have c: "fix_rotation literal_engine [(''SOT-23'', 180::int)] fp_bottom = Inr 315"
    using bottom_45_package_180 [OF h1 h2 h3 h4 h5] by (rule conjunct2 [THEN conjunct2, THEN conjunct1])
  show ?thesis
    by (intro conjI h1 h2 h3 [folded list_all_iff] h4 [folded list_all_iff] h5 c)
qed

text \<open>
  In exact arithmetic a raw rotation in \<open>[0, 360)\<close> resolves to a rotation in
  \<open>[0, 360)\<close>, and \<open>fix_rotation\<close> returns one whenever all patterns compile. This is a
  property of the exact modulus \<open>py_mod\<close>; the floats of the program round, see below.
\<close>

lemma fix_rotation_exact_in_range:
  assumes "0 \<le> degrees (GetOrientation fp)" and "degrees (GetOrientation fp) < 360"
  shows "(\<forall>v. fix_rotation re corrections fp = Inr v \<longrightarrow> 0 \<le> v \<and> v < 360) \<and>
         ((\<forall>rule\<in>set corrections. re_compiles re (fst rule)) \<longrightarrow>
            (\<exists>v. fix_rotation re corrections fp = Inr v))"
proof (intro conjI allI impI)
  fix v assume "fix_rotation re corrections fp = Inr v"
  then have "v = mirrored fp \<or> (\<exists>d. v = rotate_fp fp (mirrored fp) d)" by (rule fix_rotation_cases)
  then have "0 \<le> v \<and> v < 360" using mirrored_range [OF assms] rotate_range by auto
  then show "0 \<le> v" "v < 360" by simp_all
next
  assume "\<forall>rule\<in>set corrections. re_compiles re (fst rule)"
  then show "\<exists>v. fix_rotation re corrections fp = Inr v" by (rule fix_rotation_returns)
qed

subsection \<open>Rotation in floating point\<close>

lemma floor_log2:
  assumes "2 powi k \<le> x" and "x < 2 powi (k + 1)"
  shows "\<lfloor>log 2 x\<rfloor> = k"
proof -
  have "(0::real) < 2 powi k" by simp
  then have pos: "0 < x" using assms(1) by linarith
  have "of_int k \<le> log 2 x"
    using assms(1) pos by (simp add: le_log_iff powr_real_of_int')
  moreover have "log 2 x < of_int (k + 1)"
    using assms(2) pos by (simp add: log_less_iff powr_real_of_int' del: of_int_add)
  ultimately show ?thesis by (simp add: floor_eq_iff)
qed

lemma ulp_binade:
  assumes "2 powi k \<le> \<bar>x\<bar>" and "\<bar>x\<bar> < 2 powi (k + 1)"
  shows "ulp x = 2 powi (k - 52)"
  using floor_log2 [OF assms] by (simp add: ulp_def)

lemma round_half_even_of_int: "round_half_even (of_int n) = n"
  by (simp add: round_half_even_def)

lemma round_half_even_tie: "even n \<Longrightarrow> round_half_even (of_int n - 1 / 2) = n"
proof -
  assume "even n"
  have "\<lfloor>of_int n - 1 / 2 :: real\<rfloor> = n - 1" by (simp add: floor_eq_iff)
  then show ?thesis using \<open>even n\<close> by (simp add: round_half_even_def Let_def)
qed

lemma round_half_even_up:
  assumes "0 < d" and "d < 1 / 2"
  shows "round_half_even (of_int n - d) = n"
proof -
  have "\<lfloor>of_int n - d\<rfloor> = n - 1" using assms by (simp add: floor_eq_iff)
  then show ?thesis using assms by (simp add: round_half_even_def Let_def)
qed

lemma round_double_binade:
  assumes "2 powi k \<le> \<bar>x\<bar>" and "\<bar>x\<bar> < 2 powi (k + 1)"
    and "x = 2 powi (k - 52) * y"
  shows "round_double x = 2 powi (k - 52) * of_int (round_half_even y)"
proof -
  have "(0::real) < 2 powi k" by simp
  then have "x \<noteq> 0" using assms(1) by linarith
  moreover have "x / 2 powi (k - 52) = y" using assms(3) by simp
  ultimately show ?thesis by (simp add: round_double_def ulp_binade [OF assms(1,2)])
qed

lemma round_360_tie: "round_double (360 - 1 / 2 ^ 45) = 360"
proof -
  have "round_double (360 - 1 / 2 ^ 45) =
          2 powi (8 - 52) * of_int (round_half_even (of_int (360 * 2 ^ 44) - 1 / 2))"
    by (rule round_double_binade) (simp_all add: power_int_def field_simps)
  also have "round_half_even (of_int (360 * 2 ^ 44) - 1 / 2) = 360 * 2 ^ 44"
    by (rule round_half_even_tie) simp
  finally show ?thesis by (simp add: power_int_def field_simps)
qed

lemma round_360_up: "round_double (360 - 1 / 2 ^ 46) = 360"
proof -
  have "round_double (360 - 1 / 2 ^ 46) =
          2 powi (8 - 52) * of_int (round_half_even (of_int (360 * 2 ^ 44) - 1 / 4))"
    by (rule round_double_binade) (simp_all add: power_int_def field_simps)
  also have "round_half_even (of_int (360 * 2 ^ 44) - 1 / 4) = 360 * 2 ^ 44"
    by (rule round_half_even_up) simp_all
  finally show ?thesis by (simp add: power_int_def field_simps)
qed

lemma round_small: "round_double (- (1 / 2 ^ 45)) = - (1 / 2 ^ 45)"
proof -
  have "round_double (- (1 / 2 ^ 45)) =
          2 powi (- 45 - 52) * of_int (round_half_even (of_int (- (2 ^ 52))))"
    by (rule round_double_binade) (simp_all add: power_int_def field_simps)
  also have "round_half_even (of_int (- (2 ^ 52))) = - (2 ^ 52)"
    by (rule round_half_even_of_int)
  finally show ?thesis by (simp add: power_int_def field_simps)
qed

lemma round_input: "round_double (180 + 1 / 2 ^ 45) = 180 + 1 / 2 ^ 45"
proof -
  have "round_double (180 + 1 / 2 ^ 45) =
          2 powi (7 - 52) * of_int (round_half_even (of_int (180 * 2 ^ 45 + 1)))"
    by (rule round_double_binade) (simp_all add: power_int_def field_simps)
  also have "round_half_even (of_int (180 * 2 ^ 45 + 1)) = 180 * 2 ^ 45 + 1"
    by (rule round_half_even_of_int)
  finally show ?thesis by (simp add: power_int_def field_simps)
qed

lemma fmod_small: "fmod (- (1 / 2 ^ 45)) 360 = - (1 / 2 ^ 45)"
proof -
  have "\<lceil>- (1 / 2 ^ 45) / 360 :: real\<rceil> = 0" by (simp add: ceiling_eq_iff)
  then show ?thesis by (simp add: fmod_def)
qed

lemma float_rem_small: "float_rem (- (1 / 2 ^ 45)) 360 = 360"
proof -
  have "- (1 / 2 ^ 45) + 360 = (360 - 1 / 2 ^ 45 :: real)" by simp
  then have r: "round_double (- (1 / 2 ^ 45) + 360) = 360" by (simp only: round_360_tie)
  show ?thesis by (simp only: float_rem_def Let_def fmod_small r) simp
qed

lemma round_small_46: "round_double (- (1 / 2 ^ 46)) = - (1 / 2 ^ 46)"
proof -
  have "round_double (- (1 / 2 ^ 46)) =
          2 powi (- 46 - 52) * of_int (round_half_even (of_int (- (2 ^ 52))))"
    by (rule round_double_binade) (simp_all add: power_int_def field_simps)
  also have "round_half_even (of_int (- (2 ^ 52))) = - (2 ^ 52)"
    by (rule round_half_even_of_int)
  finally show ?thesis by (simp add: power_int_def field_simps)
qed

lemma round_input_top: "round_double (90 - 1 / 2 ^ 46) = 90 - 1 / 2 ^ 46"
proof -
  have "round_double (90 - 1 / 2 ^ 46) =
          2 powi (6 - 52) * of_int (round_half_even (of_int (90 * 2 ^ 46 - 1)))"
    by (rule round_double_binade) (simp_all add: power_int_def field_simps)
  also have "round_half_even (of_int (90 * 2 ^ 46 - 1)) = 90 * 2 ^ 46 - 1"
    by (rule round_half_even_of_int)
  finally show ?thesis by (simp add: power_int_def field_simps)
qed

lemma fmod_small_46: "fmod (- (1 / 2 ^ 46)) 360 = - (1 / 2 ^ 46)"
proof -
  have "\<lceil>- (1 / 2 ^ 46) / 360 :: real\<rceil> = 0" by (simp add: ceiling_eq_iff)
  then show ?thesis by (simp add: fmod_def)
qed

lemma float_rem_small_46: "float_rem (- (1 / 2 ^ 46)) 360 = 360"
proof -
  have "- (1 / 2 ^ 46) + 360 = (360 - 1 / 2 ^ 46 :: real)" by simp
  then have r: "round_double (- (1 / 2 ^ 46) + 360) = 360" by (simp only: round_360_up)
  show ?thesis by (simp only: float_rem_def Let_def fmod_small_46 r) simp
qed

lemma mirrored_float_edge: "mirrored_float fp_edge_bottom = 360"
proof -
  have "180 - (180 + 1 / 2 ^ 45) = (- (1 / 2 ^ 45) :: real)" by simp
  then have "float_rem (round_double (180 - (180 + 1 / 2 ^ 45))) 360 = 360"
    by (simp only: round_small float_rem_small)
  then show ?thesis by (simp add: mirrored_float_def degrees_float_def fp_edge_bottom_def)
qed

lemma rotate_float_edge: "rotate_float fp_edge_top (90 - 1 / 2 ^ 46) (- 90) = 360"
proof -
  have "90 - 1 / 2 ^ 46 + of_int (- 90) = (- (1 / 2 ^ 46) :: real)" by simp
  then have "float_rem (round_double (90 - 1 / 2 ^ 46 + of_int (- 90))) 360 = 360"
    by (simp only: round_small_46 float_rem_small_46)
  then show ?thesis by (simp add: rotate_float_def fp_edge_top_def)
qed

text \<open>
  C5. A raw rotation in \<open>[0, 360)\<close> does not always resolve to a rotation in \<open>[0, 360)\<close>:
  on doubles, \<open>fix_rotation\<close> returns exactly 360 for a footprint on the bottom side
  with orientation \<open>180.00000000000003\<close> and no correction rule, and for a footprint on
  the top side with orientation \<open>89.99999999999999\<close> whose package matches a rule with
  offset \<open>-90\<close>. Both orientations are doubles in \<open>[0, 360)\<close>; the remainder of a tiny
  negative number is rounded up to 360.
\<close>

theorem fix_rotation_float_reaches_360:
  "0 \<le> degrees_float (GetOrientation fp_edge_bottom) \<and>
   degrees_float (GetOrientation fp_edge_bottom) < 360 \<and>
   round_double (degrees_float (GetOrientation fp_edge_bottom))
     = degrees_float (GetOrientation fp_edge_bottom) \<and>
   fix_rotation_float literal_engine [] fp_edge_bottom = Inr 360 \<and>
   0 \<le> degrees_float (GetOrientation fp_edge_top) \<and>
   degrees_float (GetOrientation fp_edge_top) < 360 \<and>
   round_double (degrees_float (GetOrientation fp_edge_top))
     = degrees_float (GetOrientation fp_edge_top) \<and>
   fix_rotation_float literal_engine [(''R_0603'', - 90)] fp_edge_top = Inr 360"
proof -
  have b: "degrees_float (GetOrientation fp_edge_bottom) = 180 + 1 / 2 ^ 45"
    by (simp add: degrees_float_def fp_edge_bottom_def)
  have t: "degrees_float (GetOrientation fp_edge_top) = 90 - 1 / 2 ^ 46"
    by (simp add: degrees_float_def fp_edge_top_def)
  have b1: "0 \<le> degrees_float (GetOrientation fp_edge_bottom)"
    and b2: "degrees_float (GetOrientation fp_edge_bottom) < 360"
    by (simp_all add: b)
  have t1: "0 \<le> degrees_float (GetOrientation fp_edge_top)"
    and t2: "degrees_float (GetOrientation fp_edge_top) < 360"
    by (simp_all add: t)
  have b3: "round_double (degrees_float (GetOrientation fp_edge_bottom))
              = degrees_float (GetOrientation fp_edge_bottom)"
    by (simp only: b round_input)
  have t3: "round_double (degrees_float (GetOrientation fp_edge_top))
              = degrees_float (GetOrientation fp_edge_top)"
    by (simp only: t round_input_top)
  have b4: "fix_rotation_float literal_engine [] fp_edge_bottom = Inr 360"
    by (simp add: fix_rotation_float_def mirrored_float_edge)
  have m: "mirrored_float fp_edge_top = 90 - 1 / 2 ^ 46"
    by (simp add: mirrored_float_def degrees_float_def fp_edge_top_def)
  have v: "scan literal_engine [(''R_0603'', - 90)] (GetValue fp_edge_top) = Inr None"
    by (simp add: re_search_def literal_engine_def fp_edge_top_def)
  have p: "scan literal_engine [(''R_0603'', - 90)] (GetLibItemName fp_edge_top)
             = Inr (Some (- 90))"
    by (simp add: re_search_def literal_engine_def fp_edge_top_def)
  have t4: "fix_rotation_float literal_engine [(''R_0603'', - 90)] fp_edge_top = Inr 360"
    by (simp only: fix_rotation_float_def Let_def v p m sum.case option.case rotate_float_edge)
  show ?thesis by (intro conjI b1 b2 b3 b4 t1 t2 t3 t4)
qed

subsection \<open>The side of a correction\<close>



subsection \<open>Placement\<close>

lemma cpl_row_returns:
  assumes "\<forall>rule\<in>set corrections. re_compiles re (fst rule)"
  shows "\<exists>row. cpl_row re ToMM corrections aux_orgin part fp = Inr row"
  using fix_rotation_returns [OF assms, of fp] by (auto simp: cpl_row_def Let_def)

lemma write_footprints_rows:
  assumes "\<forall>rule\<in>set corrections. re_compiles re (fst rule)"
  shows "\<exists>rs. write_footprints re ToMM corrections aux_orgin add_without_lcsc part fps rows
                 = (None, rows @ rs) \<and>
              map Inr rs = map (cpl_row re ToMM corrections aux_orgin part)
                (filter (\<lambda>fp. \<not> get_exclude_from_pos fp \<and>
                               (add_without_lcsc \<or> truthy (part_lcsc part))) fps)"
proof (induction fps arbitrary: rows)
  case Nil
  show ?case by simp
next
  case (Cons fp fps)
  let ?keep = "\<lambda>fp. \<not> get_exclude_from_pos fp \<and> (add_without_lcsc \<or> truthy (part_lcsc part))"
  show ?case
  proof (cases "?keep fp")
    case False
    then show ?thesis using Cons.IH [of rows] by auto
  next
    case True
    obtain row where row: "cpl_row re ToMM corrections aux_orgin part fp = Inr row"
      using cpl_row_returns [OF assms] by blast
    obtain rs where rs:
      "write_footprints re ToMM corrections aux_orgin add_without_lcsc part fps (rows @ [row])
         = (None, (rows @ [row]) @ rs)"
      "map Inr rs = map (cpl_row re ToMM corrections aux_orgin part) (filter ?keep fps)"
      using Cons.IH [of "rows @ [row]"] by blast
    have "write_footprints re ToMM corrections aux_orgin add_without_lcsc part (fp # fps) rows
            = (None, rows @ (row # rs))"
      using True row rs(1) by auto
    moreover have "map Inr (row # rs) =
        map (cpl_row re ToMM corrections aux_orgin part) (filter ?keep (fp # fps))"
      using True row rs(2) by simp
    ultimately show ?thesis by blast
  qed
qed

lemma write_parts_rows:
  assumes "\<forall>rule\<in>set corrections. re_compiles re (fst rule)"
  shows "\<exists>rs. write_parts re ToMM corrections aux_orgin add_without_lcsc b pos_parts rows
                 = (None, rows @ rs) \<and>
              map Inr rs = concat (map (\<lambda>part.
                map (cpl_row re ToMM corrections aux_orgin part)
                  (filter (\<lambda>fp. \<not> get_exclude_from_pos fp \<and>
                                 (add_without_lcsc \<or> truthy (part_lcsc part)))
                     (get_footprint_by_ref b (part_reference part)))) pos_parts)"
proof (induction pos_parts arbitrary: rows)
  case Nil
  show ?case by simp
next
  case (Cons part parts)
  let ?rows_of = "\<lambda>part. map (cpl_row re ToMM corrections aux_orgin part)
      (filter (\<lambda>fp. \<not> get_exclude_from_pos fp \<and> (add_without_lcsc \<or> truthy (part_lcsc part)))
         (get_footprint_by_ref b (part_reference part)))"
  obtain rs1 where rs1:
    "write_footprints re ToMM corrections aux_orgin add_without_lcsc part
       (get_footprint_by_ref b (part_reference part)) rows = (None, rows @ rs1)"
    "map Inr rs1 = ?rows_of part"
    using write_footprints_rows [OF assms] by blast
  obtain rs2 where rs2:
    "write_parts re ToMM corrections aux_orgin add_without_lcsc b parts (rows @ rs1)
       = (None, (rows @ rs1) @ rs2)"
    "map Inr rs2 = concat (map ?rows_of parts)"
    using Cons.IH [of "rows @ rs1"] by blast
  have "write_parts re ToMM corrections aux_orgin add_without_lcsc b (part # parts) rows
          = (None, rows @ (rs1 @ rs2))"
    using rs1(1) rs2(1) by simp
  moreover have "map Inr (rs1 @ rs2) = concat (map ?rows_of (part # parts))"
    using rs1(2) rs2(2) by simp
  ultimately show ?case by blast
qed

text \<open>
  C10. For a footprint on the top side that no correction rule matches, \<open>fix_rotation\<close>
  returns the rotation it was given, with no reduction modulo 360, and this value is the
  rotation of the placement row: a raw rotation outside \<open>[0, 360)\<close> reaches the row as
  it is.
\<close>

theorem top_unmatched_unchanged:
  assumes "GetLayer fp = 0"
    and "\<forall>rule\<in>set corrections. re_compiles re (fst rule)"
    and "\<forall>rule\<in>set corrections. \<not> re_matches re (fst rule) (GetValue fp) \<and>
                                 \<not> re_matches re (fst rule) (GetLibItemName fp)"
  shows "fix_rotation re corrections fp = Inr (degrees (GetOrientation fp)) \<and>
         (\<exists>x y. cpl_row re ToMM corrections aux_orgin part fp =
            Inr [Str (part_reference part), Str (part_value part), Str (part_footprint part),
                 Num x, Num y, Num (degrees (GetOrientation fp)), Str ''top''])"
proof -
  have "find (\<lambda>rule. re_matches re (fst rule) (GetValue fp)) corrections = None"
       "find (\<lambda>rule. re_matches re (fst rule) (GetLibItemName fp)) corrections = None"
    using assms(3) by (auto simp: find_None_iff)
  then have "fix_rotation re corrections fp = Inr (degrees (GetOrientation fp))"
    using assms(1) by (simp add: fix_rotation_find [OF assms(2)] mirrored_def)
  then show ?thesis using assms(1) by (simp add: cpl_row_def Let_def)
qed

theorem top_unmatched_unchanged_witness:
  "GetLayer fp_negative = 0 \<and>
   list_all (\<lambda>rule. re_compiles literal_engine (fst rule)) [(''SOT-23'', 180::int)] \<and>
   list_all (\<lambda>rule. \<not> re_matches literal_engine (fst rule) (GetValue fp_negative) \<and>
                    \<not> re_matches literal_engine (fst rule) (GetLibItemName fp_negative))
     [(''SOT-23'', 180::int)] \<and>
   fix_rotation literal_engine [(''SOT-23'', 180::int)] fp_negative = Inr (- 90) \<and>
   \<not> (0::real) \<le> - 90"
proof -
  have h1: "GetLayer fp_negative = 0" by (simp add: fp_negative_def)
  have h2: "\<forall>rule\<in>set [(''SOT-23'', 180::int)]. re_compiles literal_engine (fst rule)"
    by (simp add: literal_engine_def)
  have h3: "\<forall>rule\<in>set [(''SOT-23'', 180::int)].
      \<not> re_matches literal_engine (fst rule) (GetValue fp_negative) \<and>
      \<not> re_matches literal_engine (fst rule) (GetLibItemName fp_negative)"
    by (simp add: literal_engine_def fp_negative_def)
  show ?thesis
    using h1 h2 h3 top_unmatched_unchanged [OF h1 h2 h3]
    by (simp add: fp_negative_def degrees_def)
qed

text \<open>
  C8. The placement coordinates of a row are \<open>x = raw_x - origin.x\<close> and
  \<open>y = -(raw_y - origin.y)\<close>, converted by \<open>ToMM\<close> and not rounded, where the raw point
  is the position of the footprint if it is surface-mount and the centre of its bounding
  box otherwise.
\<close>

theorem placement_projection:
  assumes "cpl_row re ToMM corrections origin part fp = Inr row"
    and "raw = (if get_smd fp then GetPosition fp else GetBoundingBoxCenter fp)"
  shows "row ! 3 = Num (ToMM (fst raw - fst origin)) \<and>
         row ! 4 = Num (- ToMM (snd raw - snd origin))"
  using assms by (auto simp: cpl_row_def get_position_def Let_def split: sum.splits)

theorem placement_projection_witness:
  "cpl_row literal_engine nm_to_mm [] (10000000, 10000000) part_example fp_top
     = Inr [Str ''Q1'', Str ''BC847'', Str ''SOT-23'', Num 5, Num (- 10), Num 0, Str ''top''] \<and>
   (15000000, 20000000) = (if get_smd fp_top then GetPosition fp_top
                           else GetBoundingBoxCenter fp_top) \<and>
   nm_to_mm (15000000 - 10000000) = 5 \<and> - nm_to_mm (20000000 - 10000000) = - 10"
proof -
  have h1: "cpl_row literal_engine nm_to_mm [] (10000000, 10000000) part_example fp_top
     = Inr [Str ''Q1'', Str ''BC847'', Str ''SOT-23'', Num 5, Num (- 10), Num 0, Str ''top'']"
    by (simp add: cpl_row_def fix_rotation_def mirrored_def degrees_def get_position_def
          nm_to_mm_def example_defs)
  have h2: "(15000000, 20000000) = (if get_smd fp_top then GetPosition fp_top
                           else GetBoundingBoxCenter fp_top)"
    by (simp add: fp_top_def)
  have "nm_to_mm (15000000 - 10000000) = 5 \<and> - nm_to_mm (20000000 - 10000000) = - 10"
    using placement_projection [OF h1 h2] by simp
  with h1 h2 show ?thesis by blast
qed

lemma truthy_iff: "truthy v \<longleftrightarrow> v \<noteq> None \<and> v \<noteq> Some []"
  by (cases v) (simp_all add: truthy_def)

text \<open>
  C9. With a correction table whose patterns compile, the placement export writes the
  header and then exactly one row for each pair of a part and a footprint of the board
  that carries the reference of the part, in the order of the parts and of the board,
  except that a footprint flagged to be excluded from placement gets no row, and that a
  part whose supplier part id is absent or empty gets no row unless the setting
  \<open>lcsc_bom_pos\<close> of the group \<open>gerber\<close> holds, which it does when it is not set.
\<close>

theorem generate_cpl_rows:
  assumes "\<forall>rule\<in>set corrections. re_compiles re (fst rule)"
  shows "\<exists>rows. generate_cpl re ToMM filename (Inr corrections) s b pos_parts fs
              = (None, fs(cplname filename \<mapsto> cpl_header # rows)) \<and>
       map Inr rows = concat (map (\<lambda>part.
         map (cpl_row re ToMM corrections (GetAuxOrigin b) part)
           (filter (\<lambda>fp. \<not> get_exclude_from_pos fp \<and>
                      ((case s ''gerber'' of
                          None \<Rightarrow> True
                        | Some g \<Rightarrow> (case g ''lcsc_bom_pos'' of None \<Rightarrow> True | Some v \<Rightarrow> v))
                       \<or> (part_lcsc part \<noteq> None \<and> part_lcsc part \<noteq> Some [])))
              (filter (\<lambda>fp. GetReference fp = part_reference part) (GetFootprints b))))
         pos_parts)"
proof -
  obtain rs where rs:
    "write_parts re ToMM corrections (GetAuxOrigin b) (gerber_setting s ''lcsc_bom_pos'' True) b
       pos_parts [cpl_header] = (None, [cpl_header] @ rs)"
    "map Inr rs = concat (map (\<lambda>part.
         map (cpl_row re ToMM corrections (GetAuxOrigin b) part)
           (filter (\<lambda>fp. \<not> get_exclude_from_pos fp \<and>
                          (gerber_setting s ''lcsc_bom_pos'' True \<or> truthy (part_lcsc part)))
              (get_footprint_by_ref b (part_reference part)))) pos_parts)"
    using write_parts_rows [OF assms] by blast
  have "generate_cpl re ToMM filename (Inr corrections) s b pos_parts fs
          = (None, fs(cplname filename \<mapsto> cpl_header # rs))"
    using rs(1) by (simp add: generate_cpl_def)
  moreover have "map Inr rs = concat (map (\<lambda>part.
         map (cpl_row re ToMM corrections (GetAuxOrigin b) part)
           (filter (\<lambda>fp. \<not> get_exclude_from_pos fp \<and>
                      ((case s ''gerber'' of
                          None \<Rightarrow> True
                        | Some g \<Rightarrow> (case g ''lcsc_bom_pos'' of None \<Rightarrow> True | Some v \<Rightarrow> v))
                       \<or> (part_lcsc part \<noteq> None \<and> part_lcsc part \<noteq> Some [])))
              (filter (\<lambda>fp. GetReference fp = part_reference part) (GetFootprints b))))
         pos_parts)"
    using rs(2) by (simp only: gerber_setting_def truthy_iff get_footprint_by_ref_def)
  ultimately show ?thesis by blast
qed

lemma map_Inr_eq: "map Inr xs = map Inr ys \<Longrightarrow> xs = ys"
  by (simp add: inj_map_eq_map)

lemma row_Q1:
  "cpl_row literal_engine nm_to_mm [(''SOT-23'', 180)] (10000000, 10000000)
     \<lparr>part_reference = ''Q1'', part_value = ''BC847'', part_footprint = ''SOT-23'',
      part_lcsc = Some ''C8574''\<rparr> fp_bottom
   = Inr [Str ''Q1'', Str ''BC847'', Str ''SOT-23'', Num 90, Num (- 40), Num 315, Str ''bottom'']"
  by (simp add: cpl_row_def fix_rotation_def mirrored_def degrees_def get_position_def
        nm_to_mm_def fp_bottom_def literal_engine_def re_search_def rotate_fp_def py_mod_def)

lemma row_R1:
  "cpl_row literal_engine nm_to_mm [(''SOT-23'', 180)] (10000000, 10000000)
     \<lparr>part_reference = ''R1'', part_value = ''10k'', part_footprint = ''R_0603'',
      part_lcsc = None\<rparr> fp_negative
   = Inr [Str ''R1'', Str ''10k'', Str ''R_0603'', Num (- 9), Num 8, Num (- 90), Str ''top'']"
  by (simp add: cpl_row_def fix_rotation_def mirrored_def degrees_def get_position_def
        nm_to_mm_def fp_negative_def literal_engine_def re_search_def)

lemma row_U1:
  "cpl_row literal_engine nm_to_mm [(''SOT-23'', 180)] (10000000, 10000000)
     \<lparr>part_reference = ''U1'', part_value = ''LM358'', part_footprint = ''SOIC-8'',
      part_lcsc = Some ''''\<rparr> fp_top
   = Inr [Str ''U1'', Str ''LM358'', Str ''SOIC-8'', Num 5, Num (- 10), Num 0, Str ''top'']"
  by (simp add: cpl_row_def fix_rotation_def mirrored_def degrees_def get_position_def
        nm_to_mm_def fp_top_def literal_engine_def re_search_def)

text \<open>
  A board with two footprints \<open>Q1\<close>, one of them excluded, and parts \<open>R1\<close> without and
  \<open>U1\<close> with an empty supplier part id: with \<open>lcsc_bom_pos\<close> off only the row of \<open>Q1\<close> is
  written, with no settings the rows of \<open>Q1\<close>, \<open>R1\<close> and \<open>U1\<close>.
\<close>

theorem generate_cpl_rows_witness:
  "list_all (\<lambda>rule. re_compiles literal_engine (fst rule)) [(''SOT-23'', 180::int)] \<and>
   generate_cpl literal_engine nm_to_mm ''board.kicad_pcb'' (Inr [(''SOT-23'', 180)])
       settings_off board_mixed parts_mixed Map.empty
     = (None, [cplname ''board.kicad_pcb'' \<mapsto>
          [cpl_header,
           [Str ''Q1'', Str ''BC847'', Str ''SOT-23'', Num 90, Num (- 40), Num 315,
            Str ''bottom'']]]) \<and>
   generate_cpl literal_engine nm_to_mm ''board.kicad_pcb'' (Inr [(''SOT-23'', 180)])
       Map.empty board_mixed parts_mixed Map.empty
     = (None, [cplname ''board.kicad_pcb'' \<mapsto>
          [cpl_header,
           [Str ''Q1'', Str ''BC847'', Str ''SOT-23'', Num 90, Num (- 40), Num 315,
            Str ''bottom''],
           [Str ''R1'', Str ''10k'', Str ''R_0603'', Num (- 9), Num 8, Num (- 90), Str ''top''],
           [Str ''U1'', Str ''LM358'', Str ''SOIC-8'', Num 5, Num (- 10), Num 0,
            Str ''top'']]])"
proof -
  have h: "\<forall>rule\<in>set [(''SOT-23'', 180::int)]. re_compiles literal_engine (fst rule)"
    by (simp add: literal_engine_def)
  have refs: "GetReference fp_top = ''U1''" "GetReference fp_bottom = ''Q1''"
    "GetReference fp_excluded = ''Q1''" "GetReference fp_negative = ''R1''"
    "get_exclude_from_pos fp_excluded" "\<not> get_exclude_from_pos fp_top"
    "\<not> get_exclude_from_pos fp_bottom" "\<not> get_exclude_from_pos fp_negative"
    by (simp_all add: fp_top_def fp_bottom_def fp_excluded_def fp_negative_def)
  obtain rows1 where rows1:
    "generate_cpl literal_engine nm_to_mm ''board.kicad_pcb'' (Inr [(''SOT-23'', 180)])
       settings_off board_mixed parts_mixed Map.empty
     = (None, [cplname ''board.kicad_pcb'' \<mapsto> cpl_header # rows1])"
    "map Inr rows1 = concat (map (\<lambda>part.
         map (cpl_row literal_engine nm_to_mm [(''SOT-23'', 180)] (GetAuxOrigin board_mixed) part)
           (filter (\<lambda>fp. \<not> get_exclude_from_pos fp \<and>
                      ((case settings_off ''gerber'' of
                          None \<Rightarrow> True
                        | Some g \<Rightarrow> (case g ''lcsc_bom_pos'' of None \<Rightarrow> True | Some v \<Rightarrow> v))
                       \<or> (part_lcsc part \<noteq> None \<and> part_lcsc part \<noteq> Some [])))
              (filter (\<lambda>fp. GetReference fp = part_reference part) (GetFootprints board_mixed))))
         parts_mixed)"
    using generate_cpl_rows [OF h, of nm_to_mm "''board.kicad_pcb''" settings_off board_mixed
            parts_mixed Map.empty]
    by blast
  have "(map Inr rows1 :: (error + csv_row) list) =
     map Inr [[Str ''Q1'', Str ''BC847'', Str ''SOT-23'', Num 90, Num (- 40), Num 315,
               Str ''bottom'']]"
    unfolding rows1(2)
    by (simp add: board_mixed_def parts_mixed_def settings_off_def refs row_Q1)
  then have r1: "rows1 = [[Str ''Q1'', Str ''BC847'', Str ''SOT-23'', Num 90, Num (- 40),
                           Num 315, Str ''bottom'']]"
    by (rule map_Inr_eq)
  obtain rows2 where rows2:
    "generate_cpl literal_engine nm_to_mm ''board.kicad_pcb'' (Inr [(''SOT-23'', 180)])
       Map.empty board_mixed parts_mixed Map.empty
     = (None, [cplname ''board.kicad_pcb'' \<mapsto> cpl_header # rows2])"
    "map Inr rows2 = concat (map (\<lambda>part.
         map (cpl_row literal_engine nm_to_mm [(''SOT-23'', 180)] (GetAuxOrigin board_mixed) part)
           (filter (\<lambda>fp. \<not> get_exclude_from_pos fp \<and>
                      ((case (Map.empty :: settings) ''gerber'' of
                          None \<Rightarrow> True
                        | Some g \<Rightarrow> (case g ''lcsc_bom_pos'' of None \<Rightarrow> True | Some v \<Rightarrow> v))
                       \<or> (part_lcsc part \<noteq> None \<and> part_lcsc part \<noteq> Some [])))
              (filter (\<lambda>fp. GetReference fp = part_reference part) (GetFootprints board_mixed))))
         parts_mixed)"
    using generate_cpl_rows [OF h, of nm_to_mm "''board.kicad_pcb''" Map.empty board_mixed
            parts_mixed Map.empty]
    by blast
  have "(map Inr rows2 :: (error + csv_row) list) =
     map Inr [[Str ''Q1'', Str ''BC847'', Str ''SOT-23'', Num 90, Num (- 40), Num 315,
               Str ''bottom''],
              [Str ''R1'', Str ''10k'', Str ''R_0603'', Num (- 9), Num 8, Num (- 90), Str ''top''],
              [Str ''U1'', Str ''LM358'', Str ''SOIC-8'', Num 5, Num (- 10), Num 0, Str ''top'']]"
    unfolding rows2(2)
    by (simp add: board_mixed_def parts_mixed_def refs row_Q1 row_R1 row_U1)
  then have r2: "rows2 = [[Str ''Q1'', Str ''BC847'', Str ''SOT-23'', Num 90, Num (- 40),
                           Num 315, Str ''bottom''],
              [Str ''R1'', Str ''10k'', Str ''R_0603'', Num (- 9), Num 8, Num (- 90), Str ''top''],
              [Str ''U1'', Str ''LM358'', Str ''SOIC-8'', Num 5, Num (- 10), Num 0, Str ''top'']]"
    by (rule map_Inr_eq)
  show ?thesis
    using h [folded list_all_iff] rows1(1) rows2(1) unfolding r1 r2 by blast
qed

text \<open>
  C1. If a pattern of the correction table is not a valid regular expression, the
  placement export stops with \<open>ConfigurationError\<close> before it opens its file: the files
  are as they were before the run.
\<close>

theorem malformed_pattern_aborts:
  assumes "\<exists>rule\<in>set source. \<not> re_compiles re (fst rule)"
  shows "generate_cpl re ToMM filename (get_all_correction_data re source) s b pos_parts fs
           = (Some ConfigurationError, fs)"
proof -
  from assms have "get_all_correction_data re source = Inl ConfigurationError"
    by (auto simp: get_all_correction_data_def list_all_iff)
  then show ?thesis by (simp add: generate_cpl_def)
qed

theorem malformed_pattern_aborts_witness:
  "(\<exists>rule\<in>set [(''SOT-23'', 180::int), (''('', 90)]. \<not> re_compiles literal_engine (fst rule)) \<and>
   generate_cpl literal_engine nm_to_mm ''board.kicad_pcb''
     (get_all_correction_data literal_engine [(''SOT-23'', 180::int), (''('', 90)])
     Map.empty board_example [part_example] Map.empty = (Some ConfigurationError, Map.empty)"
proof -
  have h: "\<exists>rule\<in>set [(''SOT-23'', 180::int), (''('', 90)].
             \<not> re_compiles literal_engine (fst rule)"
    by (simp add: literal_engine_def)
  show ?thesis
    using h malformed_pattern_aborts [OF h] by blast
qed

text \<open>
  \<open>fix_rotation\<close> itself checks nothing: a table that reaches it with a malformed
  pattern makes \<open>re.search\<close> raise after the file was opened and the header written.
\<close>

lemma unvalidated_table_writes_header:
  "generate_cpl literal_engine nm_to_mm ''board.kicad_pcb'' (Inr [(''('', 90)])
     Map.empty board_example [part_example] Map.empty
   = (Some ReError, [cplname ''board.kicad_pcb'' \<mapsto> [cpl_header]])"
  by (simp add: generate_cpl_def get_footprint_by_ref_def board_example_def example_defs
        gerber_setting_def truthy_def cpl_row_def fix_rotation_def re_search_def)

subsection \<open>The layer plot plan\<close>

lemma skip_flags_append: "skip_flags (xs @ ys) = skip_flags xs @ skip_flags ys"
  by (induction xs rule: skip_flags.induct) simp_all

lemma skip_flags_plot_layers:
  "skip_flags (plot_layers L plan) = map (\<lambda>info. fst (snd info) \<le> B_Cu L) plan"
  by (induction plan) simp_all

lemma skip_flags_generate_geber:
  "skip_flags (generate_geber L n None) = map (\<lambda>info. fst (snd info) \<le> B_Cu L) (plot_plan L n)"
  by (simp add: generate_geber_def skip_flags_append skip_flags_plot_layers)

lemma map_all_True:
  "\<forall>x\<in>set xs. P x \<Longrightarrow> map P xs = replicate (length xs) True"
  by (induction xs) simp_all

lemma plot_plan_inner:
  "n \<noteq> 1 \<Longrightarrow> plot_plan L n =
     plot_plan_top L @ map (\<lambda>layer. (''CuIn'' @ str_int layer, layer, ''Inner layer '' @ str_int layer)) [1..n - 2] @ plot_plan_bottom L"
  by (simp add: plot_plan_def)

lemma upto_1_2: "[1..2::int] = [1, 2]"
  by (simp add: upto.simps)

text \<open>
  C7. The plan depends on the number of copper layers only: for 1 it is the four top
  entries followed by the board outline and the v-score entry, 6 entries; for 2 it is the
  top sequence followed by the bottom sequence, 10 entries; for \<open>n > 2\<close> it is the top
  sequence, one inner copper entry for each index from 1 to \<open>n - 2\<close> in ascending order
  with the index as its layer identifier, and the bottom sequence; for 4 that makes 12
  entries with two inner entries. A count passed to \<open>generate_geber\<close> is used without
  consulting the board.
\<close>

theorem plot_plan_shape:
  "plot_plan L 1 = plot_plan_top L @ [(''EdgeCuts'', Edge_Cuts L, ''Edges''),
                                       (''VScore'', Cmts_User L, ''V score cut'')] \<and>
   length (plot_plan_top L) = 4 \<and> length (plot_plan_bottom L) = 6 \<and>
   length (plot_plan L 1) = 6 \<and>
   plot_plan L 2 = plot_plan_top L @ plot_plan_bottom L \<and>
   length (plot_plan L 2) = 10 \<and>
   (2 < n \<longrightarrow>
      plot_plan L n = plot_plan_top L
        @ map (\<lambda>layer. (''CuIn'' @ str_int layer, layer, ''Inner layer '' @ str_int layer))
            [1..n - 2]
        @ plot_plan_bottom L \<and>
      map (\<lambda>info. fst (snd info)) (take (nat (n - 2)) (drop 4 (plot_plan L n))) = [1..n - 2] \<and>
      length (plot_plan L n) = nat n + 8) \<and>
   length (plot_plan L 4) = 12 \<and>
   take 2 (drop 4 (plot_plan L 4)) = [(''CuIn1'', 1, ''Inner layer 1''),
                                      (''CuIn2'', 2, ''Inner layer 2'')] \<and>
   (c \<noteq> 0 \<longrightarrow>
      generate_geber L board_count (Some c) = plot_layers L (plot_plan L c) @ [ClosePlot])"
proof -
  have g: "c \<noteq> 0 \<longrightarrow>
      generate_geber L board_count (Some c) = plot_layers L (plot_plan L c) @ [ClosePlot]"
    by (simp add: generate_geber_def)
  have p1: "plot_plan L 1 = plot_plan_top L @ [(''EdgeCuts'', Edge_Cuts L, ''Edges''),
                                       (''VScore'', Cmts_User L, ''V score cut'')]"
    by (simp add: plot_plan_def plot_plan_bottom_def)
  have lt: "length (plot_plan_top L) = 4" by (simp add: plot_plan_top_def)
  have lb: "length (plot_plan_bottom L) = 6" by (simp add: plot_plan_bottom_def)
  have l1: "length (plot_plan L 1) = 6" using p1 lt by simp
  have p2: "plot_plan L 2 = plot_plan_top L @ plot_plan_bottom L" by (simp add: plot_plan_def)
  have l2: "length (plot_plan L 2) = 10" using p2 lt lb by simp
  have pn: "2 < n \<longrightarrow>
      plot_plan L n = plot_plan_top L
        @ map (\<lambda>layer. (''CuIn'' @ str_int layer, layer, ''Inner layer '' @ str_int layer))
            [1..n - 2]
        @ plot_plan_bottom L \<and>
      map (\<lambda>info. fst (snd info)) (take (nat (n - 2)) (drop 4 (plot_plan L n))) = [1..n - 2] \<and>
      length (plot_plan L n) = nat n + 8"
  proof
    assume n: "2 < n"
    then have e: "plot_plan L n = plot_plan_top L
        @ map (\<lambda>layer. (''CuIn'' @ str_int layer, layer, ''Inner layer '' @ str_int layer))
            [1..n - 2]
        @ plot_plan_bottom L" by (simp add: plot_plan_def)
    have "map (\<lambda>info. fst (snd info)) (take (nat (n - 2)) (drop 4 (plot_plan L n))) = [1..n - 2]"
      using lt by (simp add: e comp_def)
    moreover have "length (plot_plan L n) = nat n + 8"
      using n lt lb by (simp add: e)
    ultimately show "plot_plan L n = plot_plan_top L
        @ map (\<lambda>layer. (''CuIn'' @ str_int layer, layer, ''Inner layer '' @ str_int layer))
            [1..n - 2]
        @ plot_plan_bottom L \<and>
      map (\<lambda>info. fst (snd info)) (take (nat (n - 2)) (drop 4 (plot_plan L n))) = [1..n - 2] \<and>
      length (plot_plan L n) = nat n + 8" using e by simp
  qed
  have e4: "plot_plan L 4 = plot_plan_top L
        @ [(''CuIn1'', 1, ''Inner layer 1''), (''CuIn2'', 2, ''Inner layer 2'')]
        @ plot_plan_bottom L"
    by (simp add: plot_plan_def upto_1_2 str_int_def str_nat.simps)
  have l4: "length (plot_plan L 4) = 12" using lt lb by (simp add: e4)
  have i4: "take 2 (drop 4 (plot_plan L 4)) = [(''CuIn1'', 1, ''Inner layer 1''),
                                      (''CuIn2'', 2, ''Inner layer 2'')]"
    using lt by (simp add: e4)
  show ?thesis by (intro conjI p1 lt lb l1 p2 l2 pn l4 i4 g)
qed

theorem plot_plan_shape_witness:
  "(2::int) < 4 \<and> length (plot_plan pcbnew_layers 4) = nat 4 + 8 \<and>
   map fst (plot_plan pcbnew_layers 4) =
     [''CuTop'', ''SilkTop'', ''MaskTop'', ''PasteTop'', ''CuIn1'', ''CuIn2'', ''CuBottom'',
      ''SilkBottom'', ''MaskBottom'', ''PasteBottom'', ''EdgeCuts'', ''VScore'']"
proof -
  have h: "(2::int) < 4" by simp
  have e: "plot_plan pcbnew_layers 4 = plot_plan_top pcbnew_layers
        @ map (\<lambda>layer. (''CuIn'' @ str_int layer, layer, ''Inner layer '' @ str_int layer))
            [1..4 - 2]
        @ plot_plan_bottom pcbnew_layers"
    and l: "length (plot_plan pcbnew_layers 4) = nat 4 + 8"
    using plot_plan_shape [of pcbnew_layers 4 0 0] h by blast+
  have "map fst (plot_plan pcbnew_layers 4) =
     [''CuTop'', ''SilkTop'', ''MaskTop'', ''PasteTop'', ''CuIn1'', ''CuIn2'', ''CuBottom'',
      ''SilkBottom'', ''MaskBottom'', ''PasteBottom'', ''EdgeCuts'', ''VScore'']"
    by (simp add: e plot_plan_top_def plot_plan_bottom_def upto_1_2 str_int_def str_nat.simps)
  with h l show ?thesis by simp
qed

text \<open>
  C2, as the program has it. The flag \<open>SetSkipPlotNPTH_Pads\<close> of an entry is true exactly
  when its layer identifier is at most \<open>B_Cu\<close>. With the numbering of the copper layers
  that is: true for the top copper entry, for every inner copper entry and for the
  bottom copper entry, false for all other entries, whatever their place in the plan.
\<close>

theorem skip_flags_copper:
  "skip_flags (generate_geber L n None)
     = map (\<lambda>info. fst (snd info) \<le> B_Cu L) (plot_plan L n) \<and>
   (copper_numbering L \<and> n - 2 \<le> B_Cu L \<longrightarrow>
      skip_flags (generate_geber L n None) =
        (if n = 1 then [True, False, False, False, False, False]
         else [True, False, False, False] @ replicate (nat (n - 2)) True
              @ [True, False, False, False, False, False]))"
proof (intro conjI impI)
  show g: "skip_flags (generate_geber L n None)
     = map (\<lambda>info. fst (snd info) \<le> B_Cu L) (plot_plan L n)"
    by (rule skip_flags_generate_geber)
  assume a: "copper_numbering L \<and> n - 2 \<le> B_Cu L"
  have top: "map (\<lambda>info. fst (snd info) \<le> B_Cu L) (plot_plan_top L) = [True, False, False, False]"
    using a by (simp add: plot_plan_top_def copper_numbering_def)
  have bot: "map (\<lambda>info. fst (snd info) \<le> B_Cu L) (plot_plan_bottom L)
               = [True, False, False, False, False, False]"
    using a by (simp add: plot_plan_bottom_def copper_numbering_def)
  show "skip_flags (generate_geber L n None) =
        (if n = 1 then [True, False, False, False, False, False]
         else [True, False, False, False] @ replicate (nat (n - 2)) True
              @ [True, False, False, False, False, False])"
  proof (cases "n = 1")
    case True
    have "plot_plan L 1 = plot_plan_top L @ drop 4 (plot_plan_bottom L)"
      by (simp add: plot_plan_def plot_plan_bottom_def)
    moreover have "map (\<lambda>info. fst (snd info) \<le> B_Cu L) (drop 4 (plot_plan_bottom L))
                 = drop 4 [True, False, False, False, False, False]"
      by (simp only: bot [symmetric] drop_map)
    ultimately have "map (\<lambda>info. fst (snd info) \<le> B_Cu L) (plot_plan L 1)
                 = [True, False, False, False] @ drop 4 [True, False, False, False, False, False]"
      using top by simp
    then show ?thesis using True g by simp
  next
    case False
    have "\<forall>layer\<in>set [1..n - 2]. layer \<le> B_Cu L" using a by auto
    then have "map (\<lambda>layer. layer \<le> B_Cu L) [1..n - 2] = replicate (length [1..n - 2]) True"
      by (rule map_all_True)
    then have inner: "map (\<lambda>layer. layer \<le> B_Cu L) [1..n - 2] = replicate (nat (n - 2)) True"
      by simp
    have "map (\<lambda>info. fst (snd info) \<le> B_Cu L) (plot_plan L n)
            = [True, False, False, False] @ replicate (nat (n - 2)) True
              @ [True, False, False, False, False, False]"
      using top bot inner by (simp add: plot_plan_inner [OF False] comp_def)
    then show ?thesis using False g by simp
  qed
qed

theorem skip_flags_copper_witness:
  "copper_numbering pcbnew_layers \<and> 4 - 2 \<le> B_Cu pcbnew_layers \<and>
   skip_flags (generate_geber pcbnew_layers 4 None) =
     [True, False, False, False, True, True, True, False, False, False, False, False]"
proof -
  have h: "copper_numbering pcbnew_layers \<and> 4 - 2 \<le> B_Cu pcbnew_layers"
    by (simp add: copper_numbering_def pcbnew_layers_def)
  have "skip_flags (generate_geber pcbnew_layers 4 None) =
        (if (4::int) = 1 then [True, False, False, False, False, False]
         else [True, False, False, False] @ replicate (nat (4 - 2)) True
              @ [True, False, False, False, False, False])"
    using skip_flags_copper [of pcbnew_layers 4] h by blast
  then have "skip_flags (generate_geber pcbnew_layers 4 None) =
     [True, False, False, False, True, True, True, False, False, False, False, False]"
    by (simp add: numeral_2_eq_2)
  with h show ?thesis by simp
qed

text \<open>
  C2, as stated, fails: in the plan of a two-layer board the flag is false for the top
  silkscreen, mask and paste entries, which come before the bottom copper entry.
\<close>

theorem skip_flags_not_prefix:
  "map fst (plot_plan pcbnew_layers 2) =
     [''CuTop'', ''SilkTop'', ''MaskTop'', ''PasteTop'', ''CuBottom'', ''SilkBottom'',
      ''MaskBottom'', ''PasteBottom'', ''EdgeCuts'', ''VScore''] \<and>
   skip_flags (generate_geber pcbnew_layers 2 None) =
     [True, False, False, False, True, False, False, False, False, False]"
  by (simp add: generate_geber_def plot_plan_def plot_plan_top_def plot_plan_bottom_def
        pcbnew_layers_def)

end
